theory Spec2Isabelle
  imports Main "HOL-Library.Sublist"
begin

section \<open>Data model\<close>

text \<open>
  The page script (\<^verbatim>\<open>app.js\<close>) and the worker (\<^verbatim>\<open>service-worker.js\<close>) are embedded
  function by function. Strings are \<^typ>\<open>string\<close>. A thrown JavaScript error is a value
  of \<open>js_error\<close>; a function that may throw returns \<open>js_error + 'a\<close> (\<open>Inl\<close> is the
  throw). The browser objects the script only calls (the URL parser, \<^verbatim>\<open>fetch\<close>, the
  HTML parser behind \<^verbatim>\<open>innerHTML\<close>, the outcome of opening the cache store and of
  writing to it) are fields of an environment record \<open>env\<close>; the objects it mutates (the
  entries of the cache stores, the children of \<^verbatim>\<open>#content\<close>, the console) are fields of
  \<open>world\<close>, passed in and returned.
\<close>

text \<open>
  The values a property such as \<^verbatim>\<open>error.code\<close> or \<^verbatim>\<open>ERROR_MAP[code]\<close> can hold:
  undefined, a string, a number (the \<^verbatim>\<open>code\<close> of a \<^verbatim>\<open>DOMException\<close>), or an object or
  function.
\<close>

datatype js_value =
  Undefined
| Str string
| Num nat
| Obj

fun falsy :: "js_value \<Rightarrow> bool" where
  "falsy Undefined = True"
| "falsy (Str s) = (s = [])"
| "falsy (Num n) = (n = 0)"
| "falsy Obj = False"

record js_error =
  message :: string
  code :: js_value
  err_status :: "nat option"

text \<open>The two properties of a parsed \<^verbatim>\<open>URL\<close> object that \<^verbatim>\<open>validateUrl\<close> reads.\<close>

record url =
  protocol :: string
  href :: string

text \<open>A \<^verbatim>\<open>Response\<close>: status line, header list in order, body text.\<close>

record response =
  status :: nat
  statusText :: string
  headers :: "(string \<times> string) list"
  body :: string

text \<open>
  A parsed DOM node: an element (namespace, local name, attributes, children), an HTML
  \<^verbatim>\<open>template\<close> element (attributes, and the nodes of its template contents, which
  are not its children), or a text node. \<open>Foreign\<close> is the namespace of the elements
  parsed inside \<^verbatim>\<open>svg\<close> or \<^verbatim>\<open>math\<close>.
\<close>

datatype namespace =
  Html
| Foreign

datatype dom_node =
  Element namespace string "(string \<times> string) list" "dom_node list"
| Template "(string \<times> string) list" "dom_node list"
| Text string

text \<open>
  What \<^verbatim>\<open>appendChild\<close> puts into \<^verbatim>\<open>#content\<close>: the \<^verbatim>\<open>div\<close> of
  \<^verbatim>\<open>renderContentSafely\<close> with the children left after sanitising, or the
  \<^verbatim>\<open>div.error\<close> of \<^verbatim>\<open>displayError\<close> with the markup assigned to its \<^verbatim>\<open>innerHTML\<close>.
\<close>

datatype appended =
  Container "dom_node list"
| ErrorDiv string

text \<open>
  \<open>net ev n u\<close> is what the network answers to the \<open>n\<close>-th call of \<^verbatim>\<open>fetch\<close> when
  it asks for \<open>u\<close>: the answer may change from one call to the next.
  \<open>caches_open ev name\<close> is the error with which \<^verbatim>\<open>caches.open(name)\<close> rejects on this
  page, if it does; \<open>cache_put ev u r\<close> the error with which \<^verbatim>\<open>cache.put(u, r)\<close>
  rejects, if it does; \<open>text_rejects ev r\<close> the error with which reading the body of the
  network response \<open>r\<close> with \<^verbatim>\<open>response.text()\<close> rejects, if it does (the connection
  is lost before the body has arrived).
\<close>

record env =
  parseURL :: "string \<Rightarrow> js_error + url"
  net :: "nat \<Rightarrow> string \<Rightarrow> js_error + response"
  parseHTML :: "string \<Rightarrow> dom_node list"
  caches_open :: "string \<Rightarrow> js_error option"
  cache_put :: "string \<Rightarrow> response \<Rightarrow> js_error option"
  text_rejects :: "response \<Rightarrow> js_error option"

text \<open>\<open>content\<close> is \<open>None\<close> when the page has no element with id \<^verbatim>\<open>content\<close>.\<close>

record world =
  caches :: "string \<Rightarrow> string \<rightharpoonup> response"
  content :: "appended list option"
  console :: "string list"
  fetched :: "string list"

section \<open>String helpers of the JavaScript runtime\<close>

definition startsWith :: "string \<Rightarrow> string \<Rightarrow> bool" where
  "startsWith s p = (take (length p) s = p)"

fun str_includes :: "string \<Rightarrow> string \<Rightarrow> bool" where
  "str_includes [] sub = (sub = [])"
| "str_includes (c # s) sub = (startsWith (c # s) sub \<or> str_includes s sub)"

definition lower_char :: "char \<Rightarrow> char" where
  "lower_char c =
     (case map_of (zip ''ABCDEFGHIJKLMNOPQRSTUVWXYZ'' ''abcdefghijklmnopqrstuvwxyz'') c of
        Some d \<Rightarrow> d
      | None \<Rightarrow> c)"

definition lower :: "string \<Rightarrow> string" where
  "lower s = map lower_char s"

definition hex_digit :: "nat \<Rightarrow> char" where
  "hex_digit n = ''0123456789ABCDEF'' ! (n mod 16)"

text \<open>
  \<^verbatim>\<open>encodeURIComponent\<close> on a string given as its UTF-8 bytes: the unreserved
  characters stay, every other byte becomes \<^verbatim>\<open>%XX\<close>.
\<close>

definition uri_unreserved :: "char \<Rightarrow> bool" where
  "uri_unreserved c =
     (c \<in> set ''ABCDEFGHIJKLMNOPQRSTUVWXYZabcdefghijklmnopqrstuvwxyz0123456789-_.!~*'()'')"

definition encode_char :: "char \<Rightarrow> string" where
  "encode_char c =
     (if uri_unreserved c then [c]
      else [CHR ''%'', hex_digit (of_char c div 16), hex_digit (of_char c mod 16)])"

definition encodeURIComponent :: "string \<Rightarrow> string" where
  "encodeURIComponent s = concat (map encode_char s)"

fun digits :: "nat \<Rightarrow> string" where
  "digits n = (if n < 10 then [hex_digit n] else digits (n div 10) @ [hex_digit (n mod 10)])"

declare digits.simps [simp del]

section \<open>app.js: validateUrl and buildArchiveUrl\<close>

definition log_error :: "string \<Rightarrow> world \<Rightarrow> world" where
  "log_error msg w = w\<lparr>console := console w @ [msg]\<rparr>"

definition new_Error :: "string \<Rightarrow> js_error" where
  "new_Error msg = \<lparr>message = msg, code = Undefined, err_status = None\<rparr>"

text \<open>\<^verbatim>\<open>!error.code\<close>.\<close>

definition no_code :: "js_error \<Rightarrow> bool" where
  "no_code e = falsy (code e)"

text \<open>
  The \<^verbatim>\<open>catch\<close> of \<^verbatim>\<open>validateUrl\<close>: it logs, labels an error that has no code with
  \<^verbatim>\<open>invalid_url\<close>, and throws it again.
\<close>

definition validateUrl_catch :: "js_error \<Rightarrow> world \<Rightarrow> (js_error + string) \<times> world" where
  "validateUrl_catch e w =
     (Inl (if no_code e then e\<lparr>code := Str ''invalid_url''\<rparr> else e),
      log_error ''Invalid URL:'' w)"

definition validateUrl :: "env \<Rightarrow> string \<Rightarrow> world \<Rightarrow> (js_error + string) \<times> world" where
  "validateUrl ev input w =
     (case parseURL ev input of
        Inl e \<Rightarrow> validateUrl_catch e w
      | Inr u \<Rightarrow>
          if \<not> startsWith (protocol u) ''http''
          then validateUrl_catch ((new_Error ''Invalid protocol'')\<lparr>code := Str ''invalid_protocol''\<rparr>) w
          else (Inr (href u), w))"

definition buildArchiveUrl :: "string \<Rightarrow> string" where
  "buildArchiveUrl u = ''https://archive.today/?run=1&url='' @ encodeURIComponent u"

section \<open>Headers\<close>

text \<open>
  The header list of the Fetch API: names match without regard to ASCII case,
  \<^verbatim>\<open>get\<close> joins the values of all headers of that name with a comma and a space,
  \<^verbatim>\<open>set\<close> overwrites the first header of that name and drops the others, or appends.
\<close>

definition same_name :: "string \<Rightarrow> string \<Rightarrow> bool" where
  "same_name a b = (lower a = lower b)"

fun join :: "string \<Rightarrow> string list \<Rightarrow> string" where
  "join sep [] = []"
| "join sep [v] = v"
| "join sep (v # vs) = v @ sep @ join sep vs"

definition headers_get :: "(string \<times> string) list \<Rightarrow> string \<Rightarrow> string option" where
  "headers_get hs name =
     (case filter (\<lambda>h. same_name (fst h) name) hs of
        [] \<Rightarrow> None
      | h # hs' \<Rightarrow> Some (join '', '' (map snd (h # hs'))))"

fun headers_set :: "(string \<times> string) list \<Rightarrow> string \<Rightarrow> string \<Rightarrow> (string \<times> string) list" where
  "headers_set [] name v = [(name, v)]"
| "headers_set (h # hs) name v =
     (if same_name (fst h) name
      then (fst h, v) # filter (\<lambda>k. \<not> same_name (fst k) name) hs
      else h # headers_set hs name v)"

section \<open>app.js: fetchArchiveContent\<close>

definition ok :: "response \<Rightarrow> bool" where
  "ok r = (200 \<le> status r \<and> status r \<le> 299)"

definition fetch :: "env \<Rightarrow> string \<Rightarrow> world \<Rightarrow> (js_error + response) \<times> world" where
  "fetch ev u w = (net ev (length (fetched w)) u, w\<lparr>fetched := fetched w @ [u]\<rparr>)"

definition http_error :: "response \<Rightarrow> js_error" where
  "http_error r =
     (new_Error (''HTTP error! status: '' @ digits (status r)))
       \<lparr>code := Str ''http_error'', err_status := Some (status r)\<rparr>"

definition invalid_content :: js_error where
  "invalid_content = (new_Error ''Invalid content type'')\<lparr>code := Str ''invalid_content''\<rparr>"

text \<open>
  The checks made on the response, in the order of the source; \<open>Inr\<close> is the text the
  body holds, which \<^verbatim>\<open>fetchArchiveContent\<close> then reads.
\<close>

definition check_response :: "response \<Rightarrow> js_error + string" where
  "check_response r =
     (if \<not> ok r then Inl (http_error r)
      else
        (case headers_get (headers r) ''content-type'' of
           None \<Rightarrow> Inl invalid_content
         | Some contentType \<Rightarrow>
             if contentType = [] \<or> \<not> str_includes contentType ''text/html''
             then Inl invalid_content
             else Inr (body r)))"

definition fetchArchiveContent :: "env \<Rightarrow> string \<Rightarrow> world \<Rightarrow> (js_error + string) \<times> world" where
  "fetchArchiveContent ev u w =
     (case fetch ev u w of
        (Inl e, w1) \<Rightarrow> (Inl e, log_error ''Fetch failed:'' w1)
      | (Inr r, w1) \<Rightarrow>
          (case check_response r of
             Inl e \<Rightarrow> (Inl e, log_error ''Fetch failed:'' w1)
           | Inr text \<Rightarrow>
               (case text_rejects ev r of
                  Some e \<Rightarrow> (Inl e, log_error ''Fetch failed:'' w1)
                | None \<Rightarrow> (Inr text, w1))))"

section \<open>app.js: the cache layer and fetchWithCache\<close>

definition CACHE_NAME :: string where
  "CACHE_NAME = ''archive-v1''"

text \<open>
  \<^verbatim>\<open>new Response(content)\<close> with a string body and no init: status 200, empty status
  text, and the content type the constructor gives a string body.
\<close>

definition new_Response :: "string \<Rightarrow> response" where
  "new_Response c =
     \<lparr>status = 200, statusText = [],
      headers = [(''content-type'', ''text/plain;charset=UTF-8'')], body = c\<rparr>"

text \<open>
  Both functions open the store first; a rejected \<^verbatim>\<open>caches.open\<close> or \<^verbatim>\<open>cache.put\<close>
  is a throw of the \<^verbatim>\<open>await\<close>, and nothing is written.
\<close>

definition cacheResponse :: "env \<Rightarrow> string \<Rightarrow> string \<Rightarrow> world \<Rightarrow> (js_error + unit) \<times> world" where
  "cacheResponse ev u c w =
     (case caches_open ev CACHE_NAME of
        Some e \<Rightarrow> (Inl e, w)
      | None \<Rightarrow>
          (case cache_put ev u (new_Response c) of
             Some e \<Rightarrow> (Inl e, w)
           | None \<Rightarrow>
               (Inr (),
                w\<lparr>caches := (caches w)(CACHE_NAME := (caches w CACHE_NAME)(u \<mapsto> new_Response c))\<rparr>)))"

definition getCachedResponse :: "env \<Rightarrow> string \<Rightarrow> world \<Rightarrow> js_error + response option" where
  "getCachedResponse ev u w =
     (case caches_open ev CACHE_NAME of
        Some e \<Rightarrow> Inl e
      | None \<Rightarrow> Inr (caches w CACHE_NAME u))"

definition fetchWithCache :: "env \<Rightarrow> string \<Rightarrow> world \<Rightarrow> (js_error + string) \<times> world" where
  "fetchWithCache ev u w =
     (case getCachedResponse ev u w of
        Inl e \<Rightarrow> (Inl e, w)
      | Inr (Some cachedResponse) \<Rightarrow> (Inr (body cachedResponse), w)
      | Inr None \<Rightarrow>
          (case fetchArchiveContent ev u w of
             (Inl e, w1) \<Rightarrow> (Inl e, w1)
           | (Inr freshContent, w1) \<Rightarrow>
               (case cacheResponse ev u freshContent w1 of
                  (Inl e, w2) \<Rightarrow> (Inl e, w2)
                | (Inr x, w2) \<Rightarrow> (Inr freshContent, w2))))"

section \<open>app.js: renderContentSafely\<close>

text \<open>
  The selectors \<^verbatim>\<open>script\<close> and \<^verbatim>\<open>style, link[rel="stylesheet"]\<close>. A type selector
  matches the local name in any namespace. The attribute selector compares the whole
  value of \<^verbatim>\<open>rel\<close>: without regard to ASCII case on an HTML element of an HTML
  document, as written on any other element.
\<close>

definition rel_is_stylesheet :: "namespace \<Rightarrow> (string \<times> string) list \<Rightarrow> bool" where
  "rel_is_stylesheet ns as =
     (case ns of
        Html \<Rightarrow> map_option lower (map_of as ''rel'') = Some ''stylesheet''
      | Foreign \<Rightarrow> map_of as ''rel'' = Some ''stylesheet'')"

fun is_script :: "dom_node \<Rightarrow> bool" where
  "is_script (Element ns t as cs) = (t = ''script'')"
| "is_script (Template as cs) = False"
| "is_script (Text s) = False"

fun is_style_or_stylesheet_link :: "dom_node \<Rightarrow> bool" where
  "is_style_or_stylesheet_link (Element ns t as cs) =
     (t = ''style'' \<or> (t = ''link'' \<and> rel_is_stylesheet ns as))"
| "is_style_or_stylesheet_link (Template as cs) = False"
| "is_style_or_stylesheet_link (Text s) = False"

text \<open>
  \<^verbatim>\<open>querySelectorAll(sel).forEach(n => n.remove())\<close>: every descendant that matches
  is detached from its parent, and what hangs below it goes with it. The template
  contents of a \<^verbatim>\<open>template\<close> element are not among its descendants: the query does
  not reach them.
\<close>

fun remove_matching :: "(dom_node \<Rightarrow> bool) \<Rightarrow> dom_node \<Rightarrow> dom_node"
  and remove_all :: "(dom_node \<Rightarrow> bool) \<Rightarrow> dom_node list \<Rightarrow> dom_node list" where
  "remove_matching p (Element ns t as cs) = Element ns t as (remove_all p cs)"
| "remove_matching p (Template as cs) = Template as cs"
| "remove_matching p (Text s) = Text s"
| "remove_all p [] = []"
| "remove_all p (c # cs) =
     (if p c then remove_all p cs else remove_matching p c # remove_all p cs)"

definition sanitize :: "dom_node list \<Rightarrow> dom_node list" where
  "sanitize ns = remove_all is_style_or_stylesheet_link (remove_all is_script ns)"

definition renderContentSafely :: "env \<Rightarrow> string \<Rightarrow> world \<Rightarrow> world" where
  "renderContentSafely ev html w =
     (if html = [] then log_error ''No content to render'' w
      else
        (let container = sanitize (parseHTML ev html) in
         case content w of
           Some cs \<Rightarrow> w\<lparr>content := Some (cs @ [Container container])\<rparr>
         | None \<Rightarrow> log_error ''Content container not found'' w))"

section \<open>app.js: escapeHTML and displayError\<close>

text \<open>
  \<^verbatim>\<open>ERROR_MAP[code]\<close> is a property read on a plain object: the key is the string the
  code converts to, the six own properties are strings, and the names the object
  inherits from \<^verbatim>\<open>Object.prototype\<close> read as functions or objects.
\<close>

definition ERROR_MAP_own :: "(string \<times> string) list" where
  "ERROR_MAP_own =
     [(''missing_url'', ''Please provide a URL parameter in the query string''),
      (''invalid_protocol'', ''Only HTTP/HTTPS URLs are supported''),
      (''invalid_url'', ''The provided URL is invalid''),
      (''network_error'', ''Failed to retrieve archived content''),
      (''invalid_content'', ''The response contained unexpected content''),
      (''http_error'', ''HTTP error occurred while fetching content'')]"

definition Object_prototype :: "string list" where
  "Object_prototype =
     [''constructor'', ''__defineGetter__'', ''__defineSetter__'', ''hasOwnProperty'',
      ''__lookupGetter__'', ''__lookupSetter__'', ''isPrototypeOf'', ''propertyIsEnumerable'',
      ''toString'', ''valueOf'', ''__proto__'', ''toLocaleString'']"

fun property_key :: "js_value \<Rightarrow> string" where
  "property_key Undefined = ''undefined''"
| "property_key (Str s) = s"
| "property_key (Num n) = digits n"
| "property_key Obj = ''[object Object]''"

definition ERROR_MAP :: "js_value \<Rightarrow> js_value" where
  "ERROR_MAP k =
     (case map_of ERROR_MAP_own (property_key k) of
        Some m \<Rightarrow> Str m
      | None \<Rightarrow> if property_key k \<in> set Object_prototype then Obj else Undefined)"

text \<open>The replacer of \<^verbatim>\<open>escapeHTML\<close>, and the \<^verbatim>\<open>replace\<close> over a string.\<close>

definition escape_char :: "char \<Rightarrow> string" where
  "escape_char c =
     (if c = CHR ''&'' then ''&amp;''
      else if c = CHR ''<'' then ''&lt;''
      else if c = CHR ''>'' then ''&gt;''
      else if c = CHR 0x27 then ''&#39;''
      else if c = CHR 0x22 then ''&quot;''
      else [c])"

definition escaped :: "string \<Rightarrow> string" where
  "escaped str = concat (map escape_char str)"

text \<open>
  \<^verbatim>\<open>str.replace\<close> exists on a string only: on any other value the call throws a
  \<^verbatim>\<open>TypeError\<close>.
\<close>

fun escapeHTML :: "js_value \<Rightarrow> js_error + string" where
  "escapeHTML (Str s) = Inr (escaped s)"
| "escapeHTML Undefined = Inl (new_Error ''Cannot read properties of undefined'')"
| "escapeHTML v = Inl (new_Error ''str.replace is not a function'')"

text \<open>\<^verbatim>\<open>ERROR_MAP[code] || 'An unknown error occurred'\<close>.\<close>

definition error_message :: "js_value \<Rightarrow> js_value" where
  "error_message c =
     (if falsy (ERROR_MAP c) then Str ''An unknown error occurred'' else ERROR_MAP c)"

text \<open>The part of the template that depends on \<^verbatim>\<open>details.url\<close>, a string when present.\<close>

definition url_line :: "string option \<Rightarrow> string" where
  "url_line details =
     (case details of
        None \<Rightarrow> []
      | Some u \<Rightarrow> if u = [] then [] else ''<br><strong>URL:</strong> '' @ escaped u)"

definition error_template :: "string \<Rightarrow> string \<Rightarrow> string \<Rightarrow> string" where
  "error_template c m u =
     [CHR 0x0A] @ ''        <strong>Error:</strong> '' @ c @ ''<br>'' @
     [CHR 0x0A] @ ''        <span>'' @ m @ ''</span>'' @
     [CHR 0x0A] @ ''        '' @ u @
     [CHR 0x0A] @ ''    ''"

text \<open>The template literal: a throw of one of its \<^verbatim>\<open>escapeHTML\<close> calls leaves it unbuilt.\<close>

definition error_html :: "js_value \<Rightarrow> string option \<Rightarrow> js_error + string" where
  "error_html c details =
     (case escapeHTML c of
        Inl e \<Rightarrow> Inl e
      | Inr ec \<Rightarrow>
          (case escapeHTML (error_message c) of
             Inl e \<Rightarrow> Inl e
           | Inr em \<Rightarrow> Inr (error_template ec em (url_line details))))"

definition displayError :: "js_value \<Rightarrow> string option \<Rightarrow> world \<Rightarrow> (js_error + unit) \<times> world" where
  "displayError c details w =
     (case error_html c details of
        Inl e \<Rightarrow> (Inl e, w)
      | Inr html \<Rightarrow>
          (Inr (),
           case content w of
             Some cs \<Rightarrow> w\<lparr>content := Some (cs @ [ErrorDiv html])\<rparr>
           | None \<Rightarrow> log_error ''Content container not found'' w))"

section \<open>app.js: initializeApp\<close>

text \<open>\<^verbatim>\<open>error.code || 'network_error'\<close>.\<close>

definition code_or_network_error :: "js_error \<Rightarrow> js_value" where
  "code_or_network_error e = (if falsy (code e) then Str ''network_error'' else code e)"

text \<open>
  The first three statements of the \<^verbatim>\<open>try\<close> block: validate, build the request URL,
  fetch through the cache. A throw of one statement skips the rest.
\<close>

definition pipeline :: "env \<Rightarrow> string \<Rightarrow> world \<Rightarrow> (js_error + string) \<times> world" where
  "pipeline ev userUrl w =
     (case validateUrl ev userUrl w of
        (Inl e, w1) \<Rightarrow> (Inl e, w1)
      | (Inr validatedUrl, w1) \<Rightarrow> fetchWithCache ev (buildArchiveUrl validatedUrl) w1)"

text \<open>
  \<open>userUrl\<close> is \<^verbatim>\<open>params.get('url')\<close>: \<open>None\<close> when the query has no such
  parameter. A throw of \<^verbatim>\<open>displayError\<close> is outside every \<^verbatim>\<open>try\<close> and leaves the
  function. The registration of the worker at the end of the function touches none of
  the state modelled here.
\<close>

definition initializeApp :: "env \<Rightarrow> string option \<Rightarrow> world \<Rightarrow> (js_error + unit) \<times> world" where
  "initializeApp ev userUrl w =
     (case userUrl of
        None \<Rightarrow> displayError (Str ''missing_url'') None w
      | Some u \<Rightarrow>
          if u = [] then displayError (Str ''missing_url'') None w
          else
            (case pipeline ev u w of
               (Inl e, w1) \<Rightarrow> displayError (code_or_network_error e) (Some u) w1
             | (Inr c, w1) \<Rightarrow> (Inr (), renderContentSafely ev c w1)))"

section \<open>service-worker.js\<close>

text \<open>
  What the listener does with a fetch event: it answers it with the promise of
  \<^verbatim>\<open>handleRequest\<close>, or it returns without calling \<^verbatim>\<open>respondWith\<close> and the
  browser handles the request as if there were no worker.
\<close>

datatype handling =
  RespondWith "js_error + response"
| BrowserDefault

text \<open>
  \<^verbatim>\<open>new Response(body, init)\<close> throws a \<^verbatim>\<open>RangeError\<close> unless the status of the init
  is in 200..599; the status of an opaque response is 0. A response the network gave
  with a null body status has a null body, and its status text is one the constructor
  accepts.
\<close>

definition handleRequest :: "(string \<Rightarrow> js_error + response) \<Rightarrow> string \<Rightarrow> js_error + response" where
  "handleRequest sw_fetch request =
     (case sw_fetch request of
        Inl e \<Rightarrow> Inl e
      | Inr r \<Rightarrow>
          (let hs = headers_set (headers r) ''Access-Control-Allow-Origin'' ''*'' in
           if \<not> (200 \<le> status r \<and> status r \<le> 599)
           then Inl (new_Error ''The status provided is outside the range [200, 599].'')
           else Inr \<lparr>status = status r, statusText = statusText r, headers = hs, body = body r\<rparr>))"

definition on_fetch :: "(string \<Rightarrow> js_error + response) \<Rightarrow> string \<Rightarrow> handling" where
  "on_fetch sw_fetch request =
     (if startsWith request ''https://archive.today/''
      then RespondWith (handleRequest sw_fetch request)
      else BrowserDefault)"

section \<open>Properties of text inserted as markup\<close>




text \<open>
  The codes \<^verbatim>\<open>displayError\<close> can render: strings whose message is a string, that is,
  strings other than the names \<^verbatim>\<open>ERROR_MAP\<close> inherits.
\<close>

definition reportable :: "js_value \<Rightarrow> bool" where
  "reportable c = (case c of Str s \<Rightarrow> s \<notin> set Object_prototype | _ \<Rightarrow> False)"


text \<open>What a call of \<^verbatim>\<open>displayError\<close> adds to a content region that exists.\<close>

definition rendered_error :: "js_value \<Rightarrow> string option \<Rightarrow> appended list" where
  "rendered_error c d = (case error_html c d of Inl e \<Rightarrow> [] | Inr h \<Rightarrow> [ErrorDiv h])"

section \<open>Media types\<close>

text \<open>
  The media type a \<^verbatim>\<open>content-type\<close> value declares is what stands before the first
  semicolon, without the white space around it; it is an HTML media type when it reads
  \<^verbatim>\<open>text/html\<close> in any letter case.
\<close>

definition http_whitespace :: "char \<Rightarrow> bool" where
  "http_whitespace c = (c \<in> set [CHR '' '', CHR 0x09, CHR 0x0A, CHR 0x0D])"

definition trim :: "string \<Rightarrow> string" where
  "trim s = rev (dropWhile http_whitespace (rev (dropWhile http_whitespace s)))"

definition media_type :: "string \<Rightarrow> string" where
  "media_type ct = trim (takeWhile (\<lambda>c. c \<noteq> CHR '';'') ct)"

definition is_html_media_type :: "string \<Rightarrow> bool" where
  "is_html_media_type ct = (lower (media_type ct) = ''text/html'')"

section \<open>Elements of a fragment\<close>

text \<open>
  An element is named by its namespace, its local name and its attributes.
  \<open>elements_of\<close> lists the elements of a fragment in document order; the template
  contents of a \<^verbatim>\<open>template\<close> element are outside the fragment's tree and are not
  listed. \<open>selected\<close> holds of a script element, of a style element, and of a link
  element whose \<^verbatim>\<open>rel\<close> attribute has the value \<^verbatim>\<open>stylesheet\<close>, in any letter case
  when the link is an HTML element. \<open>flagged_of\<close> lists the elements of a fragment in
  the same order, each with a flag that tells whether the element is selected or
  stands below a selected element.
\<close>

type_synonym element = "namespace \<times> string \<times> (string \<times> string) list"

definition local_name :: "element \<Rightarrow> string" where
  "local_name e = fst (snd e)"

definition attributes :: "element \<Rightarrow> (string \<times> string) list" where
  "attributes e = snd (snd e)"

definition selected :: "element \<Rightarrow> bool" where
  "selected e =
     (local_name e = ''script'' \<or> local_name e = ''style'' \<or>
      (local_name e = ''link'' \<and>
       (case map_of (attributes e) ''rel'' of
          None \<Rightarrow> False
        | Some v \<Rightarrow> (if fst e = Html then lower v else v) = ''stylesheet'')))"

fun elements :: "dom_node \<Rightarrow> element list"
  and elements_of :: "dom_node list \<Rightarrow> element list" where
  "elements (Element ns t as cs) = (ns, t, as) # elements_of cs"
| "elements (Template as cs) = [(Html, ''template'', as)]"
| "elements (Text s) = []"
| "elements_of [] = []"
| "elements_of (n # ns) = elements n @ elements_of ns"

fun flagged :: "bool \<Rightarrow> dom_node \<Rightarrow> (bool \<times> element) list"
  and flagged_of :: "bool \<Rightarrow> dom_node list \<Rightarrow> (bool \<times> element) list" where
  "flagged b (Element ns t as cs) =
     (b \<or> selected (ns, t, as), (ns, t, as)) # flagged_of (b \<or> selected (ns, t, as)) cs"
| "flagged b (Template as cs) = [(b, (Html, ''template'', as))]"
| "flagged b (Text s) = []"
| "flagged_of b [] = []"
| "flagged_of b (n # ns) = flagged b n @ flagged_of b ns"

text \<open>
  A stylesheet link is an HTML \<^verbatim>\<open>link\<close> element whose \<^verbatim>\<open>rel\<close> attribute, a list of
  tokens separated by white space and read without regard to letter case, has the
  token \<^verbatim>\<open>stylesheet\<close>.
\<close>

definition ascii_whitespace :: "char \<Rightarrow> bool" where
  "ascii_whitespace c = (c \<in> set [CHR '' '', CHR 0x09, CHR 0x0A, CHR 0x0C, CHR 0x0D])"

fun tokens_from :: "string \<Rightarrow> string \<Rightarrow> string list" where
  "tokens_from cur [] = (if cur = [] then [] else [cur])"
| "tokens_from cur (c # s) =
     (if ascii_whitespace c
      then (if cur = [] then tokens_from [] s else cur # tokens_from [] s)
      else tokens_from (cur @ [c]) s)"

definition tokens :: "string \<Rightarrow> string list" where
  "tokens s = tokens_from [] s"

definition rel_tokens :: "element \<Rightarrow> string list" where
  "rel_tokens e =
     (case map_of (attributes e) ''rel'' of None \<Rightarrow> [] | Some v \<Rightarrow> tokens (lower v))"

definition stylesheet_link :: "element \<Rightarrow> bool" where
  "stylesheet_link e =
     (fst e = Html \<and> local_name e = ''link'' \<and> ''stylesheet'' \<in> set (rel_tokens e))"

section \<open>A sample page load\<close>

text \<open>
  A finite table of what the browser's URL parser, the network and the HTML parser
  answer at the inputs used below to evaluate the functions. A string that is not in
  the table of the URL parser makes the constructor throw its \<^verbatim>\<open>TypeError\<close>, which
  carries no \<^verbatim>\<open>code\<close>.
\<close>

definition sample_parseURL :: "string \<Rightarrow> js_error + url" where
  "sample_parseURL s =
     (case map_of
        [(''https://example.com/page'', \<lparr>protocol = ''https:'', href = ''https://example.com/page''\<rparr>),
         (''http://example.com/'', \<lparr>protocol = ''http:'', href = ''http://example.com/''\<rparr>),
         (''https://example.com/gone'', \<lparr>protocol = ''https:'', href = ''https://example.com/gone''\<rparr>),
         (''https://example.com/data'', \<lparr>protocol = ''https:'', href = ''https://example.com/data''\<rparr>),
         (''httpx://example.com'', \<lparr>protocol = ''httpx:'', href = ''httpx://example.com''\<rparr>),
         (''ftp://x'', \<lparr>protocol = ''ftp:'', href = ''ftp://x/''\<rparr>)] s of
        Some u \<Rightarrow> Inr u
      | None \<Rightarrow> Inl (new_Error ''Invalid URL''))"

definition page_response :: response where
  "page_response =
     \<lparr>status = 200, statusText = ''OK'',
      headers = [(''Content-Type'', ''text/html; charset=utf-8''), (''Access-Control-Allow-Origin'', ''null'')],
      body = ''<p>hi</p><script>x</script>''\<rparr>"

definition empty_response :: response where
  "empty_response =
     \<lparr>status = 200, statusText = ''OK'', headers = [(''content-type'', ''text/html'')], body = []\<rparr>"

definition not_found :: response where
  "not_found = \<lparr>status = 404, statusText = ''Not Found'', headers = [], body = ''gone''\<rparr>"

definition json_response :: response where
  "json_response =
     \<lparr>status = 200, statusText = ''OK'', headers = [(''Content-Type'', ''application/json'')],
      body = ''{}''\<rparr>"

definition page_request :: string where
  "page_request = ''https://archive.today/?run=1&url=https%3A%2F%2Fexample.com%2Fpage''"

definition empty_request :: string where
  "empty_request = ''https://archive.today/?run=1&url=http%3A%2F%2Fexample.com%2F''"

definition gone_request :: string where
  "gone_request = ''https://archive.today/?run=1&url=https%3A%2F%2Fexample.com%2Fgone''"

definition data_request :: string where
  "data_request = ''https://archive.today/?run=1&url=https%3A%2F%2Fexample.com%2Fdata''"

text \<open>The page is served once; a second request for it would find the network down.\<close>

definition sample_net :: "nat \<Rightarrow> string \<Rightarrow> js_error + response" where
  "sample_net n u =
     (if u = page_request
      then (if n = 0 then Inr page_response else Inl (new_Error ''Failed to fetch''))
      else if u = empty_request then Inr empty_response
      else if u = gone_request then Inr not_found
      else if u = data_request then Inr json_response
      else Inl (new_Error ''Failed to fetch''))"

text \<open>
  Inside \<^verbatim>\<open>svg\<close> the HTML parser reads the content of \<^verbatim>\<open>style\<close> as markup, so the
  \<^verbatim>\<open>a\<close> element of \<open>svg_markup\<close> becomes a child of the \<^verbatim>\<open>style\<close> element.
\<close>

definition svg_markup :: string where
  "svg_markup = ''<svg><style><a id=x></a></style></svg>''"

definition svg_fragment :: "dom_node list" where
  "svg_fragment =
     [Element Foreign ''svg'' [] [Element Foreign ''style'' [] [Element Foreign ''a'' [(''id'', ''x'')] []]]]"

text \<open>A stylesheet link with a second token, and a script inside template contents.\<close>

definition alternate_markup :: string where
  "alternate_markup = ''<link rel='' @ [CHR 0x22] @ ''stylesheet alternate'' @ [CHR 0x22] @ '' href=a.css>''"

definition alternate_fragment :: "dom_node list" where
  "alternate_fragment =
     [Element Html ''link'' [(''rel'', ''stylesheet alternate''), (''href'', ''a.css'')] []]"

definition template_markup :: string where
  "template_markup = ''<template><script>x</script></template>''"

definition template_fragment :: "dom_node list" where
  "template_fragment = [Template [] [Element Html ''script'' [] [Text ''x'']]]"

definition sample_parseHTML :: "string \<Rightarrow> dom_node list" where
  "sample_parseHTML s =
     (if s = ''<p>hi</p><script>x</script>''
      then [Element Html ''p'' [] [Text ''hi''], Element Html ''script'' [] [Text ''x'']]
      else if s = svg_markup then svg_fragment
      else if s = alternate_markup then alternate_fragment
      else if s = template_markup then template_fragment
      else [Text s])"

definition sample_env :: env where
  "sample_env =
     \<lparr>parseURL = sample_parseURL, net = sample_net, parseHTML = sample_parseHTML,
      caches_open = (\<lambda>n. None), cache_put = (\<lambda>u r. None), text_rejects = (\<lambda>r. None)\<rparr>"

text \<open>
  A page on which the cache storage is denied: \<^verbatim>\<open>caches.open\<close> rejects with the
  \<^verbatim>\<open>DOMException\<close> \<^verbatim>\<open>SecurityError\<close>, whose \<^verbatim>\<open>code\<close> is the number 18.
\<close>

definition security_error :: js_error where
  "security_error =
     \<lparr>message = ''The operation is insecure.'', code = Num 18, err_status = None\<rparr>"

definition insecure_env :: env where
  "insecure_env = sample_env\<lparr>caches_open := (\<lambda>n. Some security_error)\<rparr>"

text \<open>The opaque response a \<^verbatim>\<open>no-cors\<close> request gets, and two content types.\<close>

definition opaque_response :: response where
  "opaque_response = \<lparr>status = 0, statusText = [], headers = [], body = []\<rparr>"

definition upper_case_response :: response where
  "upper_case_response =
     \<lparr>status = 200, statusText = ''OK'', headers = [(''Content-Type'', ''TEXT/HTML'')],
      body = ''<p>hi</p>''\<rparr>"

definition parameter_response :: response where
  "parameter_response =
     \<lparr>status = 200, statusText = ''OK'',
      headers = [(''Content-Type'', ''text/plain; note=text/html'')], body = ''hi''\<rparr>"

definition page_fetch :: "string \<Rightarrow> js_error + response" where
  "page_fetch u = Inr page_response"

definition opaque_fetch :: "string \<Rightarrow> js_error + response" where
  "opaque_fetch u = Inr opaque_response"

definition fresh_world :: world where
  "fresh_world = \<lparr>caches = (\<lambda>n. Map.empty), content = Some [], console = [], fetched = []\<rparr>"

section \<open>The URL validator\<close>

lemma startsWith_prefix: "startsWith s p \<longleftrightarrow> prefix p s"
  unfolding startsWith_def prefix_def
  by (metis append_eq_conv_conj append_take_drop_id)

lemma validateUrl_unparsed:
  "parseURL ev input = Inl e \<Longrightarrow> no_code e \<Longrightarrow>
   fst (validateUrl ev input w) = Inl (e\<lparr>code := Str ''invalid_url''\<rparr>)"
  by (simp add: validateUrl_def validateUrl_catch_def)

lemma validateUrl_other_scheme:
  "parseURL ev input = Inr u \<Longrightarrow> \<not> prefix ''http'' (protocol u) \<Longrightarrow>
   fst (validateUrl ev input w) =
     Inl ((new_Error ''Invalid protocol'')\<lparr>code := Str ''invalid_protocol''\<rparr>)"
  by (simp add: validateUrl_def validateUrl_catch_def startsWith_prefix no_code_def new_Error_def)

text \<open>
  C1. The validator is to fail on every input whose scheme is neither \<^verbatim>\<open>http\<close> nor
  \<^verbatim>\<open>https\<close>. The test of the source is \<^verbatim>\<open>url.protocol.startsWith('http')\<close>, so an
  input that parses with the scheme \<^verbatim>\<open>httpx\<close> is accepted and its \<^verbatim>\<open>href\<close> returned.
\<close>

theorem validateUrl_accepts_httpx:
  assumes "parseURL ev input = Inr u" and "protocol u = ''httpx:''"
  shows "validateUrl ev input w = (Inr (href u), w)"
  using assms by (simp add: validateUrl_def startsWith_def)

theorem validateUrl_accepts_httpx_witness:
  "validateUrl sample_env ''httpx://example.com'' fresh_world = (Inr ''httpx://example.com'', fresh_world)"
  using validateUrl_accepts_httpx [of sample_env "''httpx://example.com''"
      "\<lparr>protocol = ''httpx:'', href = ''httpx://example.com''\<rparr>" fresh_world]
  by (simp add: sample_env_def sample_parseURL_def)

section \<open>The error reporter\<close>











lemma error_message_inherited:
  "s \<in> set Object_prototype \<Longrightarrow> error_message (Str s) = Obj"
  by (auto simp: error_message_def ERROR_MAP_def Object_prototype_def ERROR_MAP_own_def)


lemma error_html_thrown: "\<not> reportable c \<Longrightarrow> \<exists>e. error_html c d = Inl e"
  by (cases c) (simp_all add: error_html_def reportable_def error_message_inherited)





section \<open>The worker\<close>

lemma headers_set_others:
  "filter (\<lambda>h. \<not> same_name (fst h) name) (headers_set hs name v) =
   filter (\<lambda>h. \<not> same_name (fst h) name) hs"
  by (induction hs) (auto simp: same_name_def)

lemma headers_set_named:
  "\<exists>k. same_name k name \<and> filter (\<lambda>h. same_name (fst h) name) (headers_set hs name v) = [(k, v)]"
proof (induction hs)
  case Nil
  show ?case by (simp add: same_name_def)
next
  case (Cons h hs)
  show ?case
  proof (cases "same_name (fst h) name")
    case True
    have "filter (\<lambda>k. same_name (fst k) name) (filter (\<lambda>k. \<not> same_name (fst k) name) hs) = []"
      by (induction hs) auto
    with True show ?thesis by auto
  next
    case False
    with Cons show ?thesis by simp
  qed
qed

lemma headers_get_set_same:
  assumes "same_name n name"
  shows "headers_get (headers_set hs name v) n = Some v"
proof -
  from assms have eq: "(\<lambda>h. same_name (fst h) n) = (\<lambda>h. same_name (fst h) name)"
    by (auto simp: same_name_def fun_eq_iff)
  obtain k where "filter (\<lambda>h. same_name (fst h) name) (headers_set hs name v) = [(k, v)]"
    using headers_set_named by blast
  then show ?thesis
    by (simp add: headers_get_def eq)
qed

lemma headers_get_set_other:
  assumes "\<not> same_name n name"
  shows "headers_get (headers_set hs name v) n = headers_get hs n"
proof -
  have sel: "filter (\<lambda>h. same_name (fst h) n) xs =
             filter (\<lambda>h. same_name (fst h) n) (filter (\<lambda>h. \<not> same_name (fst h) name) xs)"
    for xs :: "(string \<times> string) list"
    using assms by (induction xs) (auto simp: same_name_def)
  have "filter (\<lambda>h. same_name (fst h) n) (headers_set hs name v) =
        filter (\<lambda>h. same_name (fst h) n) hs"
    using sel [of "headers_set hs name v"] sel [of hs] by (simp add: headers_set_others)
  then show ?thesis
    by (simp add: headers_get_def)
qed

text \<open>
  C5, as stated: every fetch event whose URL starts with \<^verbatim>\<open>https://archive.today/\<close>
  is answered with the rewritten response. The opaque response of a \<^verbatim>\<open>no-cors\<close>
  request has status 0, the constructor refuses it, and the event is answered with a
  rejected promise.
\<close>

theorem on_fetch_counterexample:
  "startsWith ''https://archive.today/logo.png'' ''https://archive.today/''
   \<and> opaque_fetch ''https://archive.today/logo.png'' = Inr opaque_response
   \<and> on_fetch opaque_fetch ''https://archive.today/logo.png'' =
       RespondWith (Inl (new_Error ''The status provided is outside the range [200, 599].''))"
  by (simp add: on_fetch_def handleRequest_def startsWith_def opaque_fetch_def opaque_response_def)

text \<open>
  C5, amended. A fetch event whose URL starts with \<^verbatim>\<open>https://archive.today/\<close> and
  whose network response has a status in 200..599 is answered with a response that has
  the body, the status and the status text of that response, in which
  \<^verbatim>\<open>Access-Control-Allow-Origin\<close> (in any spelling of the name) reads \<^verbatim>\<open>*\<close> whatever it
  was before, and in which every other header reads as before and stands in the same
  order. An event whose URL does not start so is left to the browser.
\<close>

theorem on_fetch_cors:
  "(startsWith request ''https://archive.today/'' \<and> sw_fetch request = Inr r
      \<and> 200 \<le> status r \<and> status r \<le> 599 \<longrightarrow>
      (\<exists>r'. on_fetch sw_fetch request = RespondWith (Inr r')
         \<and> body r' = body r \<and> status r' = status r \<and> statusText r' = statusText r
         \<and> (\<forall>n. headers_get (headers r') n =
               (if same_name n ''Access-Control-Allow-Origin'' then Some ''*''
                else headers_get (headers r) n))
         \<and> filter (\<lambda>h. \<not> same_name (fst h) ''Access-Control-Allow-Origin'') (headers r') =
           filter (\<lambda>h. \<not> same_name (fst h) ''Access-Control-Allow-Origin'') (headers r)))
   \<and> (\<not> startsWith request ''https://archive.today/'' \<longrightarrow>
        on_fetch sw_fetch request = BrowserDefault)"
  by (simp add: on_fetch_def handleRequest_def headers_get_set_same headers_get_set_other
      headers_set_others)

theorem on_fetch_cors_witness:
  "startsWith ''https://archive.today/anything'' ''https://archive.today/''
   \<and> page_fetch ''https://archive.today/anything'' = Inr page_response
   \<and> 200 \<le> status page_response \<and> status page_response \<le> 599
   \<and> on_fetch page_fetch ''https://archive.today/anything'' =
       RespondWith (Inr \<lparr>status = 200, statusText = ''OK'',
         headers = [(''Content-Type'', ''text/html; charset=utf-8''), (''Access-Control-Allow-Origin'', ''*'')],
         body = ''<p>hi</p><script>x</script>''\<rparr>)
   \<and> \<not> startsWith ''https://example.com/x'' ''https://archive.today/''
   \<and> on_fetch page_fetch ''https://example.com/x'' = BrowserDefault"
proof -
  have p: "startsWith ''https://archive.today/anything'' ''https://archive.today/''"
    by (simp add: startsWith_def)
  have q: "\<not> startsWith ''https://example.com/x'' ''https://archive.today/''"
    by (simp add: startsWith_def)
  have f: "page_fetch ''https://archive.today/anything'' = Inr page_response"
    by (simp add: page_fetch_def)
  have st: "200 \<le> status page_response \<and> status page_response \<le> 599"
    by (simp add: page_response_def)
  have s: "headers_set (headers page_response) ''Access-Control-Allow-Origin'' ''*'' =
     [(''Content-Type'', ''text/html; charset=utf-8''), (''Access-Control-Allow-Origin'', ''*'')]"
    by (simp add: page_response_def same_name_def lower_def lower_char_def)
  have e: "on_fetch page_fetch ''https://archive.today/anything'' =
       RespondWith (Inr \<lparr>status = 200, statusText = ''OK'',
         headers = [(''Content-Type'', ''text/html; charset=utf-8''), (''Access-Control-Allow-Origin'', ''*'')],
         body = ''<p>hi</p><script>x</script>''\<rparr>)"
    unfolding on_fetch_def handleRequest_def using p f st
    by (simp add: s) (simp add: page_response_def)
  from on_fetch_cors [of "''https://example.com/x''" page_fetch page_response] q
  have d: "on_fetch page_fetch ''https://example.com/x'' = BrowserDefault"
    by blast
  from p q f st e d show ?thesis by blast
qed

section \<open>The fetcher\<close>

lemma str_includes_sublist: "str_includes s sub \<longleftrightarrow> sublist sub s"
  by (induction s) (simp_all add: startsWith_prefix sublist_Cons_right)

lemma fetchArchiveContent_result:
  "fst (fetchArchiveContent ev u w) =
     (case net ev (length (fetched w)) u of
        Inl e \<Rightarrow> Inl e
      | Inr r \<Rightarrow>
          (case check_response r of
             Inl e \<Rightarrow> Inl e
           | Inr t \<Rightarrow> (case text_rejects ev r of Some e \<Rightarrow> Inl e | None \<Rightarrow> Inr t)))"
  by (simp add: fetchArchiveContent_def fetch_def split: sum.splits option.splits)

lemma fetchArchiveContent_world:
  "caches (snd (fetchArchiveContent ev u w)) = caches w
   \<and> content (snd (fetchArchiveContent ev u w)) = content w
   \<and> fetched (snd (fetchArchiveContent ev u w)) = fetched w @ [u]"
  by (simp add: fetchArchiveContent_def fetch_def log_error_def split: sum.splits option.splits)

lemma check_response_Inr:
  "check_response r = Inr t \<longleftrightarrow>
     ok r \<and> t = body r \<and> (\<exists>ct. headers_get (headers r) ''content-type'' = Some ct \<and> sublist ''text/html'' ct)"
  by (auto simp: check_response_def str_includes_sublist split: option.splits)

lemma check_response_code:
  "check_response r = Inl e \<Longrightarrow>
     code e = Str (if ok r then ''invalid_content'' else ''http_error'')"
  by (auto simp: check_response_def http_error_def invalid_content_def new_Error_def
      split: option.splits if_splits)

lemma fetchWithCache_hit:
  "getCachedResponse ev u w = Inr (Some r) \<Longrightarrow> fetchWithCache ev u w = (Inr (body r), w)"
  by (simp add: fetchWithCache_def)

lemma fetchWithCache_closed:
  "getCachedResponse ev u w = Inl e \<Longrightarrow> fetchWithCache ev u w = (Inl e, w)"
  by (simp add: fetchWithCache_def)

lemma cacheResponse_world:
  "content (snd (cacheResponse ev u c w)) = content w
   \<and> fetched (snd (cacheResponse ev u c w)) = fetched w
   \<and> caches (snd (cacheResponse ev u c w)) =
       (case fst (cacheResponse ev u c w) of
          Inl e \<Rightarrow> caches w
        | Inr x \<Rightarrow> (caches w)(CACHE_NAME := (caches w CACHE_NAME)(u \<mapsto> new_Response c)))"
  by (simp add: cacheResponse_def split: option.splits)

lemma cacheResponse_stored:
  "fst (cacheResponse ev u c w) = Inr x \<Longrightarrow> caches_open ev CACHE_NAME = None"
  by (simp add: cacheResponse_def split: option.splits)

lemma fetchWithCache_miss:
  "getCachedResponse ev u w = Inr None \<Longrightarrow>
   fetchWithCache ev u w =
     (case fst (fetchArchiveContent ev u w) of
        Inl e \<Rightarrow> (Inl e, snd (fetchArchiveContent ev u w))
      | Inr c \<Rightarrow>
          (case fst (cacheResponse ev u c (snd (fetchArchiveContent ev u w))) of
             Inl e \<Rightarrow> (Inl e, snd (cacheResponse ev u c (snd (fetchArchiveContent ev u w))))
           | Inr x \<Rightarrow> (Inr c, snd (cacheResponse ev u c (snd (fetchArchiveContent ev u w))))))"
  by (simp add: fetchWithCache_def split: prod.splits sum.splits)

lemma fetchWithCache_miss_success:
  assumes "getCachedResponse ev u w = Inr None" and "fetchWithCache ev u w = (Inr c, w1)"
  shows "\<exists>r. net ev (length (fetched w)) u = Inr r \<and> check_response r = Inr c
          \<and> caches_open ev CACHE_NAME = None
          \<and> caches w1 = (caches w)(CACHE_NAME := (caches w CACHE_NAME)(u \<mapsto> new_Response c))
          \<and> content w1 = content w \<and> fetched w1 = fetched w @ [u]"
proof -
  let ?w0 = "snd (fetchArchiveContent ev u w)"
  from assms have f: "fst (fetchArchiveContent ev u w) = Inr c"
    and s: "fst (cacheResponse ev u c ?w0) = Inr ()"
    and w1: "w1 = snd (cacheResponse ev u c ?w0)"
    by (auto simp: fetchWithCache_miss split: sum.splits)
  from f obtain r where r: "net ev (length (fetched w)) u = Inr r" "check_response r = Inr c"
    by (auto simp: fetchArchiveContent_result split: sum.splits option.splits)
  from s w1 have "caches w1 = (caches w)(CACHE_NAME := (caches w CACHE_NAME)(u \<mapsto> new_Response c))"
    "content w1 = content w" "fetched w1 = fetched w @ [u]"
    using cacheResponse_world [of ev u c ?w0] by (simp_all add: fetchArchiveContent_world)
  with r cacheResponse_stored [OF s] show ?thesis
    by blast
qed

lemma fetchWithCache_caches:
  "caches (snd (fetchWithCache ev u w)) n k \<noteq> caches w n k \<Longrightarrow>
   getCachedResponse ev u w = Inr None \<and> (\<exists>c. fst (fetchWithCache ev u w) = Inr c)"
proof (cases "getCachedResponse ev u w")
  case (Inl e)
  assume "caches (snd (fetchWithCache ev u w)) n k \<noteq> caches w n k"
  with Inl show ?thesis by (simp add: fetchWithCache_closed)
next
  case (Inr x)
  assume ch: "caches (snd (fetchWithCache ev u w)) n k \<noteq> caches w n k"
  show ?thesis
  proof (cases x)
    case None
    with Inr have miss: "getCachedResponse ev u w = Inr None" by simp
    let ?w0 = "snd (fetchArchiveContent ev u w)"
    from ch cacheResponse_world [of ev u _ ?w0] have "\<exists>c. fst (fetchWithCache ev u w) = Inr c"
      by (auto simp: fetchWithCache_miss [OF miss] fetchArchiveContent_world split: sum.splits)
    with miss show ?thesis by simp
  next
    case (Some r)
    with Inr ch show ?thesis by (simp add: fetchWithCache_hit)
  qed
qed

lemma trim_sublist: "sublist (trim s) s"
proof -
  have "sublist (rev (dropWhile http_whitespace (rev (dropWhile http_whitespace s))))
      (dropWhile http_whitespace s)"
    by (simp add: sublist_rev_left)
  also have "sublist (dropWhile http_whitespace s) s"
    by simp
  finally show ?thesis
    by (simp add: trim_def)
qed

lemma media_type_sublist: "sublist (media_type ct) ct"
proof -
  have "sublist (media_type ct) (takeWhile (\<lambda>c. c \<noteq> CHR '';'') ct)"
    by (simp add: media_type_def trim_sublist)
  also have "sublist (takeWhile (\<lambda>c. c \<noteq> CHR '';'') ct) ct"
    by simp
  finally show ?thesis .
qed

lemma sublist_lower: "sublist a b \<Longrightarrow> sublist (lower a) (lower b)"
  unfolding sublist_def lower_def by (metis map_append)

lemma lower_text_html: "lower ''text/html'' = ''text/html''"
  by (simp add: lower_def lower_char_def)

lemma html_media_type_mentions: "is_html_media_type ct \<Longrightarrow> sublist ''text/html'' (lower ct)"
  using sublist_lower [OF media_type_sublist [of ct]] by (simp add: is_html_media_type_def)

lemma mentions_any_case: "sublist ''text/html'' ct \<Longrightarrow> sublist ''text/html'' (lower ct)"
  using sublist_lower [of "''text/html''" ct] by (simp add: lower_text_html)

subsection \<open>The sample page load, evaluated\<close>

lemma sample_requests:
  "buildArchiveUrl ''https://example.com/page'' = page_request"
  "buildArchiveUrl ''http://example.com/'' = empty_request"
  "buildArchiveUrl ''https://example.com/gone'' = gone_request"
  "buildArchiveUrl ''https://example.com/data'' = data_request"
  by (simp_all add: buildArchiveUrl_def encodeURIComponent_def encode_char_def uri_unreserved_def
      hex_digit_def page_request_def empty_request_def gone_request_def data_request_def)

lemma sample_requests_distinct:
  "page_request \<noteq> empty_request" "page_request \<noteq> gone_request" "page_request \<noteq> data_request"
  "empty_request \<noteq> gone_request" "empty_request \<noteq> data_request" "gone_request \<noteq> data_request"
  "empty_request \<noteq> page_request" "gone_request \<noteq> page_request" "data_request \<noteq> page_request"
  "gone_request \<noteq> empty_request" "data_request \<noteq> empty_request" "data_request \<noteq> gone_request"
  by (simp_all add: page_request_def empty_request_def gone_request_def data_request_def)

lemma sample_check_response:
  "check_response page_response = Inr ''<p>hi</p><script>x</script>''"
  "check_response empty_response = Inr []"
  "check_response not_found = Inl (http_error not_found)"
  "check_response json_response = Inl invalid_content"
  by (simp_all add: check_response_def ok_def headers_get_def same_name_def lower_def lower_char_def
      startsWith_def page_response_def empty_response_def not_found_def json_response_def)

lemma sample_fetchArchiveContent:
  "fst (fetchArchiveContent sample_env page_request fresh_world) = Inr ''<p>hi</p><script>x</script>''"
  "fst (fetchArchiveContent sample_env empty_request fresh_world) = Inr []"
  "fst (fetchArchiveContent sample_env gone_request fresh_world) = Inl (http_error not_found)"
  "fst (fetchArchiveContent sample_env data_request fresh_world) = Inl invalid_content"
  by (simp_all add: fetchArchiveContent_result sample_env_def sample_net_def fresh_world_def
      sample_check_response sample_requests_distinct)

lemma sample_miss: "getCachedResponse sample_env u fresh_world = Inr None"
  by (simp add: getCachedResponse_def fresh_world_def sample_env_def)

lemma sample_stored:
  "fst (cacheResponse sample_env u c w) = Inr ()"
  by (simp add: cacheResponse_def sample_env_def)

lemma sample_first_call:
  "fetchWithCache sample_env page_request fresh_world =
     (Inr ''<p>hi</p><script>x</script>'',
      snd (fetchWithCache sample_env page_request fresh_world))"
proof -
  have "fst (fetchWithCache sample_env page_request fresh_world) = Inr ''<p>hi</p><script>x</script>''"
    by (simp add: fetchWithCache_miss [OF sample_miss] sample_fetchArchiveContent sample_stored)
  then show ?thesis
    by (metis prod.collapse)
qed

lemma sample_content_types:
  "is_html_media_type ''TEXT/HTML''"
  "\<not> is_html_media_type ''text/plain; note=text/html''"
  "media_type ''text/html; charset=utf-8'' = ''text/html''"
  "is_html_media_type ''text/html; charset=utf-8''"
  by (simp_all add: is_html_media_type_def media_type_def trim_def http_whitespace_def
      lower_def lower_char_def)

text \<open>
  The test of the source is a search for the substring \<^verbatim>\<open>text/html\<close> as written: it
  refuses an HTML media type written in capitals and accepts a plain-text type that
  names \<^verbatim>\<open>text/html\<close> in a parameter.
\<close>

lemma upper_case_html_refused:
  "is_html_media_type ''TEXT/HTML'' \<and> check_response upper_case_response = Inl invalid_content"
  by (simp add: sample_content_types check_response_def ok_def headers_get_def same_name_def
      lower_def lower_char_def startsWith_def upper_case_response_def)

lemma html_in_parameter_accepted:
  "\<not> is_html_media_type ''text/plain; note=text/html''
   \<and> check_response parameter_response = Inr ''hi''"
  by (simp add: sample_content_types check_response_def ok_def headers_get_def same_name_def
      lower_def lower_char_def startsWith_def parameter_response_def)

subsection \<open>Content type\<close>

text \<open>
  C7, as stated: on the network path the fetch fails with \<^verbatim>\<open>invalid_content\<close> exactly
  when the declared content type is missing or is not an HTML media type. The status is
  tested first: the response \<open>not_found\<close> declares no content type and the fetch fails
  with \<^verbatim>\<open>http_error\<close>.
\<close>

theorem invalid_content_counterexample:
  "headers_get (headers not_found) ''content-type'' = None
   \<and> fst (fetchArchiveContent sample_env gone_request fresh_world) = Inl (http_error not_found)
   \<and> code (http_error not_found) = Str ''http_error''"
  by (simp add: sample_fetchArchiveContent not_found_def headers_get_def http_error_def)

text \<open>
  C7, amended. When the network answers with a response whose status is in 200..299, the
  fetch fails with \<^verbatim>\<open>invalid_content\<close> if the response declares no content type or
  one that nowhere reads \<^verbatim>\<open>text/html\<close> in any letter case, and it returns the body if
  the declared media type is \<^verbatim>\<open>text/html\<close> in lower case and the body can be read.
  When the status is outside
  200..299 the fetch fails with \<^verbatim>\<open>http_error\<close>. An HTML media type always reads
  \<^verbatim>\<open>text/html\<close> in some letter case, so the refused values of the first part are not
  HTML media types, and the accepted values of the second part are.
\<close>

theorem fetchArchiveContent_invalid_content:
  assumes "net ev (length (fetched w)) u = Inr r"
  shows "(ok r \<longrightarrow>
           ((\<forall>ct. headers_get (headers r) ''content-type'' = Some ct
                \<longrightarrow> \<not> sublist ''text/html'' (lower ct))
              \<longrightarrow> (\<exists>e. fst (fetchArchiveContent ev u w) = Inl e \<and> code e = Str ''invalid_content''))
           \<and> (\<forall>ct. headers_get (headers r) ''content-type'' = Some ct \<and> media_type ct = ''text/html''
                  \<and> text_rejects ev r = None
                \<longrightarrow> fst (fetchArchiveContent ev u w) = Inr (body r)))
       \<and> (\<not> ok r \<longrightarrow>
           (\<exists>e. fst (fetchArchiveContent ev u w) = Inl e \<and> code e = Str ''http_error''))
       \<and> (\<forall>ct. is_html_media_type ct \<longrightarrow> sublist ''text/html'' (lower ct))
       \<and> (\<forall>ct. media_type ct = ''text/html'' \<longrightarrow> is_html_media_type ct)"
proof -
  have res: "fst (fetchArchiveContent ev u w) =
      (case check_response r of
         Inl e \<Rightarrow> Inl e
       | Inr t \<Rightarrow> (case text_rejects ev r of Some e \<Rightarrow> Inl e | None \<Rightarrow> Inr t))"
    using assms by (simp add: fetchArchiveContent_result)
  have a: "\<exists>e. check_response r = Inl e \<and> code e = Str ''invalid_content''"
    if "ok r" and "\<forall>ct. headers_get (headers r) ''content-type'' = Some ct
          \<longrightarrow> \<not> sublist ''text/html'' (lower ct)"
  proof (cases "check_response r")
    case (Inl e)
    with check_response_code [OF Inl] that(1) show ?thesis by simp
  next
    case (Inr t)
    then obtain ct where "headers_get (headers r) ''content-type'' = Some ct" "sublist ''text/html'' ct"
      by (auto simp: check_response_Inr)
    with that(2) mentions_any_case show ?thesis by blast
  qed
  have b: "check_response r = Inr (body r)"
    if "ok r" and "headers_get (headers r) ''content-type'' = Some ct" and "media_type ct = ''text/html''"
    for ct
  proof -
    from that(3) media_type_sublist [of ct] have "sublist ''text/html'' ct" by simp
    with that(1,2) show ?thesis by (auto simp: check_response_Inr)
  qed
  have c: "\<exists>e. check_response r = Inl e \<and> code e = Str ''http_error''" if "\<not> ok r"
  proof (cases "check_response r")
    case (Inl e)
    with check_response_code [OF Inl] that show ?thesis by simp
  next
    case (Inr t)
    with that show ?thesis by (simp add: check_response_Inr)
  qed
  have d: "\<forall>ct. media_type ct = ''text/html'' \<longrightarrow> is_html_media_type ct"
    by (simp add: is_html_media_type_def lower_text_html)
  have a': "\<exists>e. fst (fetchArchiveContent ev u w) = Inl e \<and> code e = Str ''invalid_content''"
    if "ok r" and "\<forall>ct. headers_get (headers r) ''content-type'' = Some ct
          \<longrightarrow> \<not> sublist ''text/html'' (lower ct)"
    using a [OF that] by (auto simp: res)
  have b': "fst (fetchArchiveContent ev u w) = Inr (body r)"
    if "ok r" and "headers_get (headers r) ''content-type'' = Some ct" and "media_type ct = ''text/html''"
      and "text_rejects ev r = None"
    for ct
    using b [OF that(1-3)] that(4) by (simp add: res)
  have c': "\<exists>e. fst (fetchArchiveContent ev u w) = Inl e \<and> code e = Str ''http_error''" if "\<not> ok r"
    using c [OF that] by (auto simp: res)
  from a' b' c' d show ?thesis
    using html_media_type_mentions by blast
qed

theorem fetchArchiveContent_invalid_content_witness:
  "net sample_env (length (fetched fresh_world)) page_request = Inr page_response
   \<and> ok page_response
   \<and> headers_get (headers page_response) ''content-type'' = Some ''text/html; charset=utf-8''
   \<and> media_type ''text/html; charset=utf-8'' = ''text/html''
   \<and> text_rejects sample_env page_response = None
   \<and> fst (fetchArchiveContent sample_env page_request fresh_world) = Inr (body page_response)
   \<and> net sample_env (length (fetched fresh_world)) data_request = Inr json_response
   \<and> ok json_response
   \<and> headers_get (headers json_response) ''content-type'' = Some ''application/json''
   \<and> \<not> sublist ''text/html'' (lower ''application/json'')
   \<and> fst (fetchArchiveContent sample_env data_request fresh_world) = Inl invalid_content
   \<and> code invalid_content = Str ''invalid_content''
   \<and> net sample_env (length (fetched fresh_world)) gone_request = Inr not_found
   \<and> \<not> ok not_found
   \<and> fst (fetchArchiveContent sample_env gone_request fresh_world) = Inl (http_error not_found)"
proof -
  have n1: "net sample_env (length (fetched fresh_world)) page_request = Inr page_response"
    by (simp add: sample_env_def sample_net_def fresh_world_def)
  have n2: "net sample_env (length (fetched fresh_world)) data_request = Inr json_response"
    by (simp add: sample_env_def sample_net_def fresh_world_def sample_requests_distinct)
  have n3: "net sample_env (length (fetched fresh_world)) gone_request = Inr not_found"
    by (simp add: sample_env_def sample_net_def fresh_world_def sample_requests_distinct)
  have o: "ok page_response" "ok json_response" "\<not> ok not_found"
    by (simp_all add: ok_def page_response_def json_response_def not_found_def)
  have h1: "headers_get (headers page_response) ''content-type'' = Some ''text/html; charset=utf-8''"
    by (simp add: headers_get_def same_name_def lower_def lower_char_def page_response_def)
  have h2: "headers_get (headers json_response) ''content-type'' = Some ''application/json''"
    by (simp add: headers_get_def same_name_def lower_def lower_char_def json_response_def)
  have s2: "\<not> sublist ''text/html'' (lower ''application/json'')"
    by (simp add: str_includes_sublist [symmetric] startsWith_def lower_def lower_char_def)
  have c: "code invalid_content = Str ''invalid_content''"
    by (simp add: invalid_content_def)
  have tx: "text_rejects sample_env page_response = None"
    by (simp add: sample_env_def)
  from fetchArchiveContent_invalid_content [OF n1] o(1) h1 sample_content_types(3) tx
  have r1: "fst (fetchArchiveContent sample_env page_request fresh_world) = Inr (body page_response)"
    by blast
  from h2 s2 have "\<forall>ct. headers_get (headers json_response) ''content-type'' = Some ct
      \<longrightarrow> \<not> sublist ''text/html'' (lower ct)"
    by simp
  with fetchArchiveContent_invalid_content [OF n2] o(2)
  have "\<exists>e. fst (fetchArchiveContent sample_env data_request fresh_world) = Inl e
           \<and> code e = Str ''invalid_content''"
    by blast
  then have r2: "fst (fetchArchiveContent sample_env data_request fresh_world) = Inl invalid_content"
    by (simp add: sample_fetchArchiveContent)
  from fetchArchiveContent_invalid_content [OF n3] o(3)
  have "\<exists>e. fst (fetchArchiveContent sample_env gone_request fresh_world) = Inl e
           \<and> code e = Str ''http_error''"
    by blast
  then have r3: "fst (fetchArchiveContent sample_env gone_request fresh_world) = Inl (http_error not_found)"
    by (simp add: sample_fetchArchiveContent)
  from n1 n2 n3 o h1 h2 s2 c r1 r2 r3 sample_content_types(3) tx show ?thesis
    by blast
qed

subsection \<open>Cache first\<close>

text \<open>
  C4. After a call that misses the cache and succeeds, one request has gone to the
  network and the entry is stored under the request URL; a second call on the world the
  first one left returns the same body and leaves the world as it is, so it sends no
  request. On any world a hit returns the stored body and leaves the world as it is:
  the network is consulted only after the lookup has missed.
\<close>

theorem fetchWithCache_twice:
  assumes "getCachedResponse ev u w = Inr None" and "fetchWithCache ev u w = (Inr c, w1)"
  shows "(\<exists>r. net ev (length (fetched w)) u = Inr r \<and> c = body r)
    \<and> fetched w1 = fetched w @ [u]
    \<and> getCachedResponse ev u w1 = Inr (Some (new_Response c))
    \<and> fetchWithCache ev u w1 = (Inr c, w1)
    \<and> (\<forall>w' r'. getCachedResponse ev u w' = Inr (Some r') \<longrightarrow>
          fetchWithCache ev u w' = (Inr (body r'), w'))"
proof -
  from fetchWithCache_miss_success [OF assms] obtain r where
    r: "net ev (length (fetched w)) u = Inr r" "check_response r = Inr c"
    and op: "caches_open ev CACHE_NAME = None"
    and cs: "caches w1 = (caches w)(CACHE_NAME := (caches w CACHE_NAME)(u \<mapsto> new_Response c))"
    and f: "fetched w1 = fetched w @ [u]"
    by blast
  from r(2) have c: "c = body r"
    by (simp add: check_response_Inr)
  have g: "getCachedResponse ev u w1 = Inr (Some (new_Response c))"
    by (simp add: getCachedResponse_def op cs)
  have "body (new_Response c) = c"
    by (simp add: new_Response_def)
  with fetchWithCache_hit [OF g] have s: "fetchWithCache ev u w1 = (Inr c, w1)"
    by simp
  from r(1) c f g s show ?thesis
    by (simp add: fetchWithCache_hit)
qed

theorem fetchWithCache_twice_witness:
  "getCachedResponse sample_env page_request fresh_world = Inr None
   \<and> fst (fetchWithCache sample_env page_request fresh_world) = Inr ''<p>hi</p><script>x</script>''
   \<and> fetched (snd (fetchWithCache sample_env page_request fresh_world)) = [page_request]
   \<and> fetchWithCache sample_env page_request (snd (fetchWithCache sample_env page_request fresh_world)) =
       (Inr ''<p>hi</p><script>x</script>'', snd (fetchWithCache sample_env page_request fresh_world))"
proof -
  note t = fetchWithCache_twice [OF sample_miss sample_first_call]
  have a: "fst (fetchWithCache sample_env page_request fresh_world) = Inr ''<p>hi</p><script>x</script>''"
    using sample_first_call by (metis fst_conv)
  from t have "fetched (snd (fetchWithCache sample_env page_request fresh_world)) =
      fetched fresh_world @ [page_request]"
    by blast
  then have b: "fetched (snd (fetchWithCache sample_env page_request fresh_world)) = [page_request]"
    by (simp add: fresh_world_def)
  from t have c: "fetchWithCache sample_env page_request (snd (fetchWithCache sample_env page_request fresh_world)) =
       (Inr ''<p>hi</p><script>x</script>'', snd (fetchWithCache sample_env page_request fresh_world))"
    by blast
  from sample_miss a b c show ?thesis
    by blast
qed

subsection \<open>What a cache entry holds\<close>

text \<open>
  C8, as stated: the entry carries the headers and the status line of the response. The
  entry written for the sample page has the one header and the empty status text of a
  \<^verbatim>\<open>new Response(content)\<close>, not the two headers and the status text of the response.
\<close>

theorem cache_entry_counterexample:
  "net sample_env (length (fetched fresh_world)) page_request = Inr page_response
   \<and> caches (snd (fetchWithCache sample_env page_request fresh_world)) CACHE_NAME page_request =
       Some (new_Response (body page_response))
   \<and> headers (new_Response (body page_response)) \<noteq> headers page_response
   \<and> statusText (new_Response (body page_response)) \<noteq> statusText page_response"
proof -
  have n1: "net sample_env (length (fetched fresh_world)) page_request = Inr page_response"
    by (simp add: sample_env_def sample_net_def fresh_world_def)
  from fetchWithCache_miss_success [OF sample_miss sample_first_call]
  have c: "caches (snd (fetchWithCache sample_env page_request fresh_world)) CACHE_NAME page_request =
       Some (new_Response (body page_response))"
    by (auto simp: page_response_def)
  have d: "headers (new_Response (body page_response)) \<noteq> headers page_response"
    "statusText (new_Response (body page_response)) \<noteq> statusText page_response"
    by (simp_all add: new_Response_def page_response_def)
  from n1 c d show ?thesis by blast
qed

text \<open>
  C8, amended. Whenever a call of the fetcher changes a cache, it is the cache
  \<^verbatim>\<open>archive-v1\<close> at the key equal to the request URL, and the new entry is a fresh
  response made of the body text alone: status 200, empty status text, the single header
  \<^verbatim>\<open>content-type: text/plain;charset=UTF-8\<close>. The headers of the network response
  are never the stored ones, its content type contains \<^verbatim>\<open>text/html\<close>.
\<close>

theorem cache_entry_written:
  assumes "caches (snd (fetchWithCache ev u w)) n k \<noteq> caches w n k"
  shows "n = CACHE_NAME \<and> k = u
    \<and> (\<exists>r ct. net ev (length (fetched w)) u = Inr r
          \<and> headers_get (headers r) ''content-type'' = Some ct \<and> sublist ''text/html'' ct
          \<and> caches (snd (fetchWithCache ev u w)) n k =
              Some \<lparr>status = 200, statusText = [],
                    headers = [(''content-type'', ''text/plain;charset=UTF-8'')],
                    body = body r\<rparr>
          \<and> headers r \<noteq> [(''content-type'', ''text/plain;charset=UTF-8'')])"
proof -
  from fetchWithCache_caches [OF assms] obtain c where
    miss: "getCachedResponse ev u w = Inr None"
    and "fst (fetchWithCache ev u w) = Inr c"
    by blast
  then have res: "fetchWithCache ev u w = (Inr c, snd (fetchWithCache ev u w))"
    by (metis prod.collapse)
  from fetchWithCache_miss_success [OF miss res] obtain r where
    r: "net ev (length (fetched w)) u = Inr r" "check_response r = Inr c"
    and cs: "caches (snd (fetchWithCache ev u w)) =
     (caches w)(CACHE_NAME := (caches w CACHE_NAME)(u \<mapsto> new_Response c))"
    by blast
  from r(2) obtain ct where c: "c = body r"
    and ct: "headers_get (headers r) ''content-type'' = Some ct" "sublist ''text/html'' ct"
    by (auto simp: check_response_Inr)
  from cs assms have nk: "n = CACHE_NAME \<and> k = u"
    by (auto split: if_splits)
  have plain: "\<not> sublist ''text/html'' ''text/plain;charset=UTF-8''"
    by (simp add: str_includes_sublist [symmetric] startsWith_def)
  have get: "headers_get [(''content-type'', ''text/plain;charset=UTF-8'')] ''content-type'' =
      Some ''text/plain;charset=UTF-8''"
    by (simp add: headers_get_def same_name_def)
  from ct plain get have ne: "headers r \<noteq> [(''content-type'', ''text/plain;charset=UTF-8'')]"
    by auto
  from nk cs c have "caches (snd (fetchWithCache ev u w)) n k =
      Some \<lparr>status = 200, statusText = [],
            headers = [(''content-type'', ''text/plain;charset=UTF-8'')], body = body r\<rparr>"
    by (simp add: new_Response_def)
  with nk r(1) ct ne show ?thesis
    by blast
qed

theorem cache_entry_written_witness:
  "caches (snd (fetchWithCache sample_env page_request fresh_world)) CACHE_NAME page_request \<noteq>
     caches fresh_world CACHE_NAME page_request
   \<and> caches (snd (fetchWithCache sample_env page_request fresh_world)) CACHE_NAME page_request =
       Some \<lparr>status = 200, statusText = [],
             headers = [(''content-type'', ''text/plain;charset=UTF-8'')],
             body = ''<p>hi</p><script>x</script>''\<rparr>"
proof -
  have n1: "net sample_env (length (fetched fresh_world)) page_request = Inr page_response"
    by (simp add: sample_env_def sample_net_def fresh_world_def)
  from fetchWithCache_miss_success [OF sample_miss sample_first_call]
  have "caches (snd (fetchWithCache sample_env page_request fresh_world)) CACHE_NAME page_request \<noteq> None"
    by auto
  then have h: "caches (snd (fetchWithCache sample_env page_request fresh_world)) CACHE_NAME page_request \<noteq>
     caches fresh_world CACHE_NAME page_request"
    by (simp add: fresh_world_def)
  from cache_entry_written [OF h] obtain r where
    "net sample_env (length (fetched fresh_world)) page_request = Inr r"
    and e: "caches (snd (fetchWithCache sample_env page_request fresh_world)) CACHE_NAME page_request =
       Some \<lparr>status = 200, statusText = [],
             headers = [(''content-type'', ''text/plain;charset=UTF-8'')], body = body r\<rparr>"
    by blast
  with n1 have "body r = ''<p>hi</p><script>x</script>''"
    by (simp add: page_response_def)
  with e h show ?thesis
    by simp
qed

section \<open>The sanitizer\<close>

lemma remove_twice:
  assumes inv: "\<And>p' n. q (remove_matching p' n) = q n"
  shows "remove_matching q (remove_matching p n) = remove_matching (\<lambda>x. p x \<or> q x) n"
    and "remove_all q (remove_all p ns) = remove_all (\<lambda>x. p x \<or> q x) ns"
  by (induction p n and p ns rule: remove_matching_remove_all.induct) (simp_all add: inv)

lemma style_or_link_stable:
  "is_style_or_stylesheet_link (remove_matching p n) = is_style_or_stylesheet_link n"
  by (cases n) simp_all

lemma sanitize_one_pass:
  "sanitize ns = remove_all (\<lambda>n. is_script n \<or> is_style_or_stylesheet_link n) ns"
  unfolding sanitize_def by (rule remove_twice(2)) (rule style_or_link_stable)

lemma selected_node:
  "(is_script (Element ns t as cs) \<or> is_style_or_stylesheet_link (Element ns t as cs)) =
   selected (ns, t, as)"
  by (cases ns)
     (auto simp: selected_def local_name_def attributes_def rel_is_stylesheet_def
        split: option.splits)

lemma flagged_elements:
  "map snd (flagged b n) = elements n"
  "map snd (flagged_of b ns) = elements_of ns"
  by (induction b n and b ns rule: flagged_flagged_of.induct) simp_all

lemma flagged_below_selected:
  "filter (\<lambda>x. \<not> fst x) (flagged True n) = []"
  "filter (\<lambda>x. \<not> fst x) (flagged_of True ns) = []"
  by (induction "True" n and "True" ns rule: flagged_flagged_of.induct) simp_all

lemma elements_remove:
  "\<not> (is_script n \<or> is_style_or_stylesheet_link n) \<Longrightarrow>
   elements (remove_matching (\<lambda>n. is_script n \<or> is_style_or_stylesheet_link n) n) =
     map snd (filter (\<lambda>x. \<not> fst x) (flagged False n))"
  "elements_of (remove_all (\<lambda>n. is_script n \<or> is_style_or_stylesheet_link n) ns) =
     map snd (filter (\<lambda>x. \<not> fst x) (flagged_of False ns))"
proof (induction "\<lambda>n. is_script n \<or> is_style_or_stylesheet_link n" n
    and "\<lambda>n. is_script n \<or> is_style_or_stylesheet_link n" ns
    rule: remove_matching_remove_all.induct)
  case (1 ns t as cs)
  from "1.prems" have nd: "\<not> selected (ns, t, as)"
    unfolding selected_node .
  from "1.hyps" nd show ?case
    by simp
next
  case (2 as cs)
  show ?case by simp
next
  case (3 s)
  show ?case by simp
next
  case 4
  show ?case by simp
next
  case (5 c cs)
  show ?case
  proof (cases "is_script c \<or> is_style_or_stylesheet_link c")
    case True
    then obtain ns t as ks where c: "c = Element ns t as ks"
      by (cases c) auto
    with True have "selected (ns, t, as)"
      using selected_node [of ns t as ks] by blast
    with c have "filter (\<lambda>x. \<not> fst x) (flagged False c) = []"
      by (simp add: flagged_below_selected)
    with True 5 show ?thesis by simp
  next
    case False
    with 5 show ?thesis by simp
  qed
qed

lemma template_not_selected: "\<not> selected (Html, ''template'', as)"
  by (simp add: selected_def local_name_def attributes_def)

lemma kept_not_selected:
  "\<forall>x \<in> set (flagged b n). selected (snd x) \<longrightarrow> fst x"
  "\<forall>x \<in> set (flagged_of b ns). selected (snd x) \<longrightarrow> fst x"
  by (induction b n and b ns rule: flagged_flagged_of.induct)
     (auto simp: template_not_selected)

lemma tokens_stylesheet: "tokens ''stylesheet'' = [''stylesheet'']"
  by (simp add: tokens_def ascii_whitespace_def)

lemma selected_link_is_stylesheet_link:
  "fst e = Html \<Longrightarrow> local_name e = ''link'' \<Longrightarrow>
   map_option lower (map_of (attributes e) ''rel'') = Some ''stylesheet'' \<Longrightarrow>
   stylesheet_link e"
  by (auto simp: stylesheet_link_def rel_tokens_def tokens_stylesheet)

lemma exact_rel_selected:
  "local_name e = ''link'' \<Longrightarrow> map_of (attributes e) ''rel'' = Some ''stylesheet'' \<Longrightarrow>
   selected e"
  by (simp add: selected_def lower_def lower_char_def)

lemma sample_svg:
  "sanitize svg_fragment = [Element Foreign ''svg'' [] []]"
  "elements_of svg_fragment =
     [(Foreign, ''svg'', []), (Foreign, ''style'', []), (Foreign, ''a'', [(''id'', ''x'')])]"
  "\<not> stylesheet_link (Foreign, ''a'', [(''id'', ''x'')])"
  by (simp_all add: sanitize_def svg_fragment_def stylesheet_link_def)

text \<open>
  The selector \<^verbatim>\<open>link[rel="stylesheet"]\<close> compares the whole attribute value, and the
  query does not reach template contents: a stylesheet link with a second token stays,
  and so does a script inside a \<^verbatim>\<open>template\<close>.
\<close>

lemma alternate_stylesheet_kept:
  "stylesheet_link (Html, ''link'', [(''rel'', ''stylesheet alternate''), (''href'', ''a.css'')])
   \<and> sanitize alternate_fragment = alternate_fragment"
  by (simp add: stylesheet_link_def rel_tokens_def tokens_def ascii_whitespace_def lower_def
      lower_char_def sanitize_def alternate_fragment_def local_name_def attributes_def
      rel_is_stylesheet_def)

lemma template_script_kept: "sanitize template_fragment = template_fragment"
  by (simp add: sanitize_def template_fragment_def)

text \<open>
  C6, as stated: every element that is not a script, a style or a stylesheet link is
  preserved. An element goes with the selected element it stands below: the \<^verbatim>\<open>a\<close>
  element of \<open>svg_markup\<close> is none of the three and is not in the rendered fragment.
\<close>

theorem sanitize_counterexample:
  "content (renderContentSafely sample_env svg_markup fresh_world) =
     Some [Container [Element Foreign ''svg'' [] []]]
   \<and> elements_of (parseHTML sample_env svg_markup) =
       [(Foreign, ''svg'', []), (Foreign, ''style'', []), (Foreign, ''a'', [(''id'', ''x'')])]
   \<and> \<not> stylesheet_link (Foreign, ''a'', [(''id'', ''x'')])"
proof -
  have m: "svg_markup \<noteq> []" "svg_markup \<noteq> ''<p>hi</p><script>x</script>''"
    by (simp_all add: svg_markup_def)
  then have p: "parseHTML sample_env svg_markup = svg_fragment"
    by (simp add: sample_env_def sample_parseHTML_def)
  have "content (renderContentSafely sample_env svg_markup fresh_world) =
     Some [Container [Element Foreign ''svg'' [] []]]"
    using m(1) by (simp add: renderContentSafely_def p sample_svg fresh_world_def)
  with p sample_svg show ?thesis by simp
qed

text \<open>
  C6, amended. For a non-empty HTML input on a page that has the content region, the
  tree of the rendered fragment holds no script element, no style element and no link
  whose \<^verbatim>\<open>rel\<close> attribute is the one word \<^verbatim>\<open>stylesheet\<close> in lower case (in HTML each
  such link is a stylesheet link): they are removed with everything below them. The
  elements of the rendered fragment other than stylesheet links are, in the order of
  the input, the elements of the parsed input other than stylesheet links that are not
  removed and not below a removed element. Nothing is said of the other stylesheet
  links, nor of template contents.
\<close>

theorem renderContentSafely_sanitizes:
  assumes "html \<noteq> []" and "content w = Some cs"
  shows "\<exists>frag. content (renderContentSafely ev html w) = Some (cs @ [Container frag])
    \<and> (\<forall>e \<in> set (elements_of frag).
          local_name e \<noteq> ''script'' \<and> local_name e \<noteq> ''style''
          \<and> \<not> (local_name e = ''link'' \<and> map_of (attributes e) ''rel'' = Some ''stylesheet''))
    \<and> filter (\<lambda>e. \<not> stylesheet_link e) (elements_of frag) =
        map snd (filter (\<lambda>x. \<not> fst x \<and> \<not> stylesheet_link (snd x))
          (flagged_of False (parseHTML ev html)))
    \<and> map snd (flagged_of False (parseHTML ev html)) = elements_of (parseHTML ev html)
    \<and> (\<forall>x \<in> set (flagged_of False (parseHTML ev html)).
          local_name (snd x) = ''script'' \<or> local_name (snd x) = ''style''
          \<or> (local_name (snd x) = ''link'' \<and> map_of (attributes (snd x)) ''rel'' = Some ''stylesheet'')
          \<longrightarrow> fst x)
    \<and> (\<forall>e. fst e = Html \<and> local_name e = ''link''
            \<and> map_of (attributes e) ''rel'' = Some ''stylesheet''
          \<longrightarrow> stylesheet_link e)"
proof -
  let ?frag = "sanitize (parseHTML ev html)"
  let ?fl = "flagged_of False (parseHTML ev html)"
  have a: "content (renderContentSafely ev html w) = Some (cs @ [Container ?frag])"
    using assms by (simp add: renderContentSafely_def)
  have b: "elements_of ?frag = map snd (filter (\<lambda>x. \<not> fst x) ?fl)"
    by (simp add: sanitize_one_pass elements_remove(2))
  have "\<forall>e \<in> set (elements_of ?frag). \<not> selected e"
    unfolding b using kept_not_selected(2) [of False "parseHTML ev html"] by auto
  then have c: "\<forall>e \<in> set (elements_of ?frag).
          local_name e \<noteq> ''script'' \<and> local_name e \<noteq> ''style''
          \<and> \<not> (local_name e = ''link'' \<and> map_of (attributes e) ''rel'' = Some ''stylesheet'')"
    using exact_rel_selected by (auto simp: selected_def)
  have d: "filter (\<lambda>e. \<not> stylesheet_link e) (elements_of ?frag) =
        map snd (filter (\<lambda>x. \<not> fst x \<and> \<not> stylesheet_link (snd x)) ?fl)"
    unfolding b by (simp add: filter_map comp_def)
  have e: "map snd ?fl = elements_of (parseHTML ev html)"
    by (rule flagged_elements)
  have f: "\<forall>x \<in> set ?fl.
          local_name (snd x) = ''script'' \<or> local_name (snd x) = ''style''
          \<or> (local_name (snd x) = ''link'' \<and> map_of (attributes (snd x)) ''rel'' = Some ''stylesheet'')
          \<longrightarrow> fst x"
  proof
    fix x assume x: "x \<in> set ?fl"
    show "local_name (snd x) = ''script'' \<or> local_name (snd x) = ''style''
          \<or> (local_name (snd x) = ''link'' \<and> map_of (attributes (snd x)) ''rel'' = Some ''stylesheet'')
          \<longrightarrow> fst x"
    proof
      assume "local_name (snd x) = ''script'' \<or> local_name (snd x) = ''style''
          \<or> (local_name (snd x) = ''link'' \<and> map_of (attributes (snd x)) ''rel'' = Some ''stylesheet'')"
      then have "selected (snd x)"
        using exact_rel_selected [of "snd x"] by (auto simp: selected_def)
      with x kept_not_selected(2) [of False "parseHTML ev html"] show "fst x"
        by blast
    qed
  qed
  have g: "\<forall>e. fst e = Html \<and> local_name e = ''link''
            \<and> map_of (attributes e) ''rel'' = Some ''stylesheet''
          \<longrightarrow> stylesheet_link e"
    using selected_link_is_stylesheet_link by (simp add: lower_def lower_char_def)
  from a c d e f g show ?thesis
    by blast
qed

theorem renderContentSafely_sanitizes_witness:
  "''<p>hi</p><script>x</script>'' \<noteq> [] \<and> content fresh_world = Some []
   \<and> content (renderContentSafely sample_env ''<p>hi</p><script>x</script>'' fresh_world) =
       Some [Container [Element Html ''p'' [] [Text ''hi'']]]
   \<and> elements_of (parseHTML sample_env ''<p>hi</p><script>x</script>'') =
       [(Html, ''p'', []), (Html, ''script'', [])]
   \<and> elements_of [Element Html ''p'' [] [Text ''hi'']] = [(Html, ''p'', [])]"
proof -
  have h1: "''<p>hi</p><script>x</script>'' \<noteq> []" by simp
  have h2: "content fresh_world = Some []" by (simp add: fresh_world_def)
  have p: "parseHTML sample_env ''<p>hi</p><script>x</script>'' =
      [Element Html ''p'' [] [Text ''hi''], Element Html ''script'' [] [Text ''x'']]"
    by (simp add: sample_env_def sample_parseHTML_def)
  have r: "content (renderContentSafely sample_env ''<p>hi</p><script>x</script>'' fresh_world) =
       Some [Container [Element Html ''p'' [] [Text ''hi'']]]"
    by (simp add: renderContentSafely_def p sanitize_def fresh_world_def)
  from renderContentSafely_sanitizes [OF h1 h2, of sample_env] h1 h2 p r show ?thesis
    by simp
qed

section \<open>The orchestrator\<close>

lemma validateUrl_world:
  "content (snd (validateUrl ev u w)) = content w
   \<and> fetched (snd (validateUrl ev u w)) = fetched w
   \<and> caches (snd (validateUrl ev u w)) = caches w"
  by (simp add: validateUrl_def validateUrl_catch_def log_error_def split: sum.splits)

lemma fetchWithCache_world:
  "content (snd (fetchWithCache ev u w)) = content w
   \<and> length (fetched (snd (fetchWithCache ev u w))) \<le> length (fetched w) + 1"
proof (cases "getCachedResponse ev u w")
  case (Inl e)
  then show ?thesis by (simp add: fetchWithCache_closed)
next
  case (Inr x)
  show ?thesis
  proof (cases x)
    case None
    with Inr have miss: "getCachedResponse ev u w = Inr None" by simp
    show ?thesis
      by (simp add: fetchWithCache_miss [OF miss] fetchArchiveContent_world cacheResponse_world
          split: sum.splits)
  next
    case (Some r)
    with Inr show ?thesis by (simp add: fetchWithCache_hit)
  qed
qed

lemma pipeline_stages:
  "pipeline ev u w =
     (case fst (validateUrl ev u w) of
        Inl e \<Rightarrow> (Inl e, snd (validateUrl ev u w))
      | Inr v \<Rightarrow> fetchWithCache ev (buildArchiveUrl v) (snd (validateUrl ev u w)))"
  by (simp add: pipeline_def split: prod.splits sum.splits)

lemma pipeline_world:
  "content (snd (pipeline ev u w)) = content w
   \<and> length (fetched (snd (pipeline ev u w))) \<le> length (fetched w) + 1"
  using validateUrl_world [of ev u w]
    fetchWithCache_world [of ev _ "snd (validateUrl ev u w)"]
  by (simp add: pipeline_stages split: sum.splits)

lemma displayError_world:
  "fetched (snd (displayError c d w)) = fetched w
   \<and> content (snd (displayError c d w)) = map_option (\<lambda>cs. cs @ rendered_error c d) (content w)"
  by (cases "content w")
     (simp_all add: displayError_def rendered_error_def log_error_def split: sum.splits)


lemma rendered_error_thrown: "\<not> reportable c \<Longrightarrow> rendered_error c d = []"
  using error_html_thrown [of c d] by (auto simp: rendered_error_def)



lemma initializeApp_pipeline:
  "u \<noteq> [] \<Longrightarrow>
   initializeApp ev (Some u) w =
     (case fst (pipeline ev u w) of
        Inl e \<Rightarrow> displayError (code_or_network_error e) (Some u) (snd (pipeline ev u w))
      | Inr c \<Rightarrow> (Inr (), renderContentSafely ev c (snd (pipeline ev u w))))"
  by (simp add: initializeApp_def split: prod.splits sum.splits)

lemma sample_validateUrl:
  "validateUrl sample_env ''https://example.com/page'' fresh_world = (Inr ''https://example.com/page'', fresh_world)"
  "validateUrl sample_env ''http://example.com/'' fresh_world = (Inr ''http://example.com/'', fresh_world)"
  "validateUrl sample_env ''https://example.com/gone'' fresh_world = (Inr ''https://example.com/gone'', fresh_world)"
  "validateUrl insecure_env ''https://example.com/page'' fresh_world = (Inr ''https://example.com/page'', fresh_world)"
  by (simp_all add: validateUrl_def insecure_env_def sample_env_def sample_parseURL_def startsWith_def)


lemma insecure_closed: "getCachedResponse insecure_env u w = Inl security_error"
  by (simp add: getCachedResponse_def insecure_env_def)


lemma security_error_code:
  "code_or_network_error security_error = Num 18" "\<not> reportable (Num 18)"
  by (simp_all add: code_or_network_error_def security_error_def reportable_def)

text \<open>
  C3. When the validator or the fetcher fails with \<open>e\<close> on a non-empty user URL,
  whatever \<open>e\<close> is, the page load ends in one call of \<^verbatim>\<open>displayError\<close> with the code
  of \<open>e\<close>, or \<^verbatim>\<open>network_error\<close> when \<open>e\<close> has no code, and with the user URL as
  context, on a world whose content region is still as it was; at most one request has
  gone to the network, so nothing was retried. The content region, when the page has
  one, gains what that call renders. The request builder and the renderer have no
  failing branch.
\<close>

theorem stage_failure_reported:
  assumes "u \<noteq> []"
    and "fst (validateUrl ev u w) = Inl e
         \<or> (\<exists>v. fst (validateUrl ev u w) = Inr v
               \<and> fst (fetchWithCache ev (buildArchiveUrl v) (snd (validateUrl ev u w))) = Inl e)"
  shows "(\<exists>w1. initializeApp ev (Some u) w = displayError (code_or_network_error e) (Some u) w1
            \<and> content w1 = content w
            \<and> length (fetched w1) \<le> length (fetched w) + 1)
    \<and> code_or_network_error e = (if falsy (code e) then Str ''network_error'' else code e)
    \<and> length (fetched (snd (initializeApp ev (Some u) w))) \<le> length (fetched w) + 1
    \<and> content (snd (initializeApp ev (Some u) w)) =
        map_option (\<lambda>cs. cs @ rendered_error (code_or_network_error e) (Some u)) (content w)"
proof -
  from assms(2) have p: "fst (pipeline ev u w) = Inl e"
    by (auto simp: pipeline_stages)
  with assms(1) have i: "initializeApp ev (Some u) w =
      displayError (code_or_network_error e) (Some u) (snd (pipeline ev u w))"
    by (simp add: initializeApp_pipeline)
  have a: "\<exists>w1. initializeApp ev (Some u) w = displayError (code_or_network_error e) (Some u) w1
            \<and> content w1 = content w \<and> length (fetched w1) \<le> length (fetched w) + 1"
    using i pipeline_world [of ev u w] by blast
  have b: "length (fetched (snd (initializeApp ev (Some u) w))) \<le> length (fetched w) + 1"
    using pipeline_world [of ev u w] by (simp add: i displayError_world)
  have c: "content (snd (initializeApp ev (Some u) w)) =
        map_option (\<lambda>cs. cs @ rendered_error (code_or_network_error e) (Some u)) (content w)"
    using pipeline_world [of ev u w] by (simp add: i displayError_world)
  from a b c show ?thesis
    by (simp add: code_or_network_error_def)
qed

theorem stage_failure_reported_witness:
  "''https://example.com/gone'' \<noteq> []
   \<and> fst (validateUrl sample_env ''https://example.com/gone'' fresh_world) = Inr ''https://example.com/gone''
   \<and> fst (fetchWithCache sample_env (buildArchiveUrl ''https://example.com/gone'')
            (snd (validateUrl sample_env ''https://example.com/gone'' fresh_world))) =
       Inl (http_error not_found)
   \<and> code (http_error not_found) = Str ''http_error''
   \<and> content (snd (initializeApp sample_env (Some ''https://example.com/gone'') fresh_world)) =
       Some (rendered_error (Str ''http_error'') (Some ''https://example.com/gone''))
   \<and> fst (fetchWithCache insecure_env (buildArchiveUrl ''https://example.com/page'')
            (snd (validateUrl insecure_env ''https://example.com/page'' fresh_world))) =
       Inl security_error
   \<and> content (snd (initializeApp insecure_env (Some ''https://example.com/page'') fresh_world)) =
       Some []"
proof -
  have h1: "''https://example.com/gone'' \<noteq> []" by simp
  have v: "fst (validateUrl sample_env ''https://example.com/gone'' fresh_world) = Inr ''https://example.com/gone''"
    by (simp add: sample_validateUrl)
  have f: "fst (fetchWithCache sample_env (buildArchiveUrl ''https://example.com/gone'')
            (snd (validateUrl sample_env ''https://example.com/gone'' fresh_world))) =
       Inl (http_error not_found)"
    by (simp add: sample_validateUrl sample_requests fetchWithCache_miss [OF sample_miss]
        sample_fetchArchiveContent)
  from v f have h2: "fst (validateUrl sample_env ''https://example.com/gone'' fresh_world) = Inl (http_error not_found)
         \<or> (\<exists>v. fst (validateUrl sample_env ''https://example.com/gone'' fresh_world) = Inr v
               \<and> fst (fetchWithCache sample_env (buildArchiveUrl v)
                    (snd (validateUrl sample_env ''https://example.com/gone'' fresh_world))) =
                  Inl (http_error not_found))"
    by simp
  have c: "code (http_error not_found) = Str ''http_error''"
    by (simp add: http_error_def new_Error_def)
  then have n: "code_or_network_error (http_error not_found) = Str ''http_error''"
    by (simp add: code_or_network_error_def)
  from stage_failure_reported [OF h1 h2]
  have "content (snd (initializeApp sample_env (Some ''https://example.com/gone'') fresh_world)) =
      map_option (\<lambda>cs. cs @ rendered_error (code_or_network_error (http_error not_found))
        (Some ''https://example.com/gone'')) (content fresh_world)"
    by blast
  then have r: "content (snd (initializeApp sample_env (Some ''https://example.com/gone'') fresh_world)) =
       Some (rendered_error (Str ''http_error'') (Some ''https://example.com/gone''))"
    by (simp add: n fresh_world_def)
  have h3: "''https://example.com/page'' \<noteq> []" by simp
  have g: "fst (fetchWithCache insecure_env (buildArchiveUrl ''https://example.com/page'')
            (snd (validateUrl insecure_env ''https://example.com/page'' fresh_world))) =
       Inl security_error"
    by (simp add: sample_validateUrl fetchWithCache_closed [OF insecure_closed])
  then have h4: "fst (validateUrl insecure_env ''https://example.com/page'' fresh_world) = Inl security_error
         \<or> (\<exists>v. fst (validateUrl insecure_env ''https://example.com/page'' fresh_world) = Inr v
               \<and> fst (fetchWithCache insecure_env (buildArchiveUrl v)
                    (snd (validateUrl insecure_env ''https://example.com/page'' fresh_world))) =
                  Inl security_error)"
    by (simp add: sample_validateUrl)
  from stage_failure_reported [OF h3 h4]
  have "content (snd (initializeApp insecure_env (Some ''https://example.com/page'') fresh_world)) =
      map_option (\<lambda>cs. cs @ rendered_error (code_or_network_error security_error)
        (Some ''https://example.com/page'')) (content fresh_world)"
    by blast
  then have s: "content (snd (initializeApp insecure_env (Some ''https://example.com/page'') fresh_world)) =
       Some []"
    by (simp add: security_error_code rendered_error_thrown fresh_world_def)
  from h1 v f c r g s show ?thesis
    by blast
qed




end
